theory Spec2Isabelle
  imports Complex_Main
begin

section \<open>The in-memory key/value store of server.go\<close>

text \<open>
  The theory embeds \<^verbatim>\<open>src/server.go\<close>. Every method of \<^verbatim>\<open>Datastore\<close> locks the
  mutex for its whole body (\<^verbatim>\<open>BQPop\<close> for each poll), so a method is one atomic step on
  the map; the model passes the store in and returns the updated store next to the
  method's \<^verbatim>\<open>(string, int)\<close> result. The map holds pointers \<^verbatim>\<open>*Data\<close>; each pointer is
  created by the method that inserts it and is stored under one key only, so an update
  through the pointer is an update of the map at that key.
\<close>

subsection \<open>Time\<close>

text \<open>
  A \<^verbatim>\<open>time.Time\<close> is the number of nanoseconds since the zero instant of the type, so
  that \<^verbatim>\<open>IsZero\<close> is equality with 0. A \<^verbatim>\<open>time.Duration\<close> is an \<^verbatim>\<open>int64\<close> count of
  nanoseconds; its multiplication wraps around. The clock is an argument \<open>now\<close> of
  every method that reads \<^verbatim>\<open>time.Now()\<close>. Instants are unbounded integers: the ends
  of the range of \<^verbatim>\<open>time.Time\<close> are not modelled.
\<close>

type_synonym time = int
type_synonym Duration = int

definition wrap64 :: "int \<Rightarrow> int" where
  "wrap64 x = (x + 2 ^ 63) mod 2 ^ 64 - 2 ^ 63"

abbreviation Millisecond :: Duration where
  "Millisecond \<equiv> 1000000"

abbreviation Second :: Duration where
  "Second \<equiv> 1000000000"

definition IsZero :: "time \<Rightarrow> bool" where
  "IsZero t = (t = 0)"

definition Before :: "time \<Rightarrow> time \<Rightarrow> bool" where
  "Before t u = (t < u)"

definition After :: "time \<Rightarrow> time \<Rightarrow> bool" where
  "After t u = (t > u)"

definition Add :: "time \<Rightarrow> Duration \<Rightarrow> time" where
  "Add t d = t + d"

subsection \<open>Status codes and the data model\<close>

abbreviation StatusOK :: int where
  "StatusOK \<equiv> 200"

abbreviation StatusBadRequest :: int where
  "StatusBadRequest \<equiv> 400"

abbreviation StatusNotFound :: int where
  "StatusNotFound \<equiv> 404"

abbreviation StatusConflict :: int where
  "StatusConflict \<equiv> 409"

text \<open>
  \<^verbatim>\<open>type Data struct { value string; expiry time.Time; isQueued bool; queue []string }\<close>.
  The field \<^verbatim>\<open>value\<close> is named \<open>value_str\<close> here. A nil slice and an empty slice are
  both the empty list: the code only takes their length and appends to them.
\<close>

record Data =
  value_str :: string
  expiry :: time
  isQueued :: bool
  queue :: "string list"

text \<open>\<^verbatim>\<open>type Datastore struct { mu sync.Mutex; data map[string]*Data }\<close>\<close>

record Datastore =
  data :: "string \<rightharpoonup> Data"

definition NewDatastore :: Datastore where
  "NewDatastore = \<lparr>data = Map.empty\<rparr>"

subsection \<open>Set and Get\<close>

definition Set :: "Datastore \<Rightarrow> time \<Rightarrow> string \<Rightarrow> string \<Rightarrow> int \<Rightarrow> string
    \<Rightarrow> (string \<times> int) \<times> Datastore" where
  "Set ds now key v expirySeconds conditional =
     (if data ds key \<noteq> None \<and> conditional = ''NX'' then (('''', StatusConflict), ds)
      else if data ds key = None \<and> conditional = ''XX'' then (('''', StatusNotFound), ds)
      else
        let expiry_at = (if expirySeconds > 0
                         then Add now (wrap64 (wrap64 expirySeconds * Second))
                         else 0)
        in ((''Enter data sucessfull'', StatusOK),
            ds\<lparr>data := (data ds)(key \<mapsto>
                 \<lparr>value_str = v, expiry = expiry_at, isQueued = False, queue = []\<rparr>)\<rparr>))"

definition Get :: "Datastore \<Rightarrow> time \<Rightarrow> string \<Rightarrow> (string \<times> int) \<times> Datastore" where
  "Get ds now key =
     (case data ds key of
        Some d \<Rightarrow>
          if IsZero (expiry d) \<or> Before now (expiry d)
          then ((value_str d, StatusOK), ds)
          else ((''Key not exist'', StatusNotFound), ds)
      | None \<Rightarrow> ((''Key not exist'', StatusNotFound), ds))"

subsection \<open>The queue operations\<close>

definition QPush :: "Datastore \<Rightarrow> string \<Rightarrow> string list \<Rightarrow> (string \<times> int) \<times> Datastore" where
  "QPush ds key vals =
     (case data ds key of
        None \<Rightarrow>
          ((''Value is pushed successfully'', StatusOK),
           ds\<lparr>data := (data ds)(key \<mapsto>
                \<lparr>value_str = '''', expiry = 0, isQueued = True, queue = [] @ vals\<rparr>)\<rparr>)
      | Some d \<Rightarrow>
          if \<not> isQueued d then ((''Key already exists'', StatusConflict), ds)
          else
            ((''Value is pushed successfully'', StatusOK),
             ds\<lparr>data := (data ds)(key \<mapsto> d\<lparr>queue := queue d @ vals\<rparr>)\<rparr>))"

text \<open>
  In \<^verbatim>\<open>QPop\<close> the index \<^verbatim>\<open>len(data.queue)-1\<close> and the slice bound are in range, since
  the branch is reached only with a queue that is not empty.
\<close>

definition QPop :: "Datastore \<Rightarrow> string \<Rightarrow> (string \<times> int) \<times> Datastore" where
  "QPop ds key =
     (case data ds key of
        None \<Rightarrow> ((''Q is empty so nothing can be popped!!'', StatusBadRequest), ds)
      | Some d \<Rightarrow>
          if \<not> isQueued d \<or> length (queue d) = 0
          then ((''Q is empty so nothing can be popped!!'', StatusBadRequest), ds)
          else
            ((queue d ! (length (queue d) - 1), StatusOK),
             ds\<lparr>data := (data ds)(key \<mapsto>
                  d\<lparr>queue := take (length (queue d) - 1) (queue d)\<rparr>)\<rparr>))"

subsection \<open>What the program takes from the Go runtime and library\<close>

text \<open>A \<^verbatim>\<open>float64\<close> is a rational number, an infinity or a NaN.\<close>

datatype float64 = Finite rat | PosInf | NegInf | NaN

text \<open>
  The library functions that the program calls, and two facts of the machine it runs
  on, are parameters of the model:
  \<^item> \<open>ToUpper\<close> is \<^verbatim>\<open>strings.ToUpper\<close>;
  \<^item> \<open>Atoi\<close> is the \<^verbatim>\<open>int\<close> that \<^verbatim>\<open>strconv.Atoi\<close> returns (the program discards the
    error);
  \<^item> \<open>ParseFloat\<close> is \<^verbatim>\<open>strconv.ParseFloat(s, 64)\<close>: the value, and whether the error
    is nil;
  \<^item> \<open>conv_unrepresentable\<close> is the result of converting to \<^verbatim>\<open>int64\<close> a
    \<^verbatim>\<open>float64\<close> that no \<^verbatim>\<open>int64\<close> represents, which Go leaves to the implementation;
  \<^item> \<open>poll_cost\<close> is the time in nanoseconds that one poll of \<^verbatim>\<open>BQPop\<close> takes before
    it reads the clock.
\<close>

record platform =
  ToUpper :: "string \<Rightarrow> string"
  Atoi :: "string \<Rightarrow> int"
  ParseFloat :: "string \<Rightarrow> float64 \<times> bool"
  conv_unrepresentable :: "float64 \<Rightarrow> int"
  poll_cost :: nat

text \<open>
  The conversion \<^verbatim>\<open>time.Duration(timeoutSeconds)\<close> of a \<^verbatim>\<open>float64\<close> to an
  \<^verbatim>\<open>int64\<close>: Go discards the fraction (truncation towards zero).
\<close>

definition truncate_rat :: "rat \<Rightarrow> int" where
  "truncate_rat r = (if 0 \<le> r then \<lfloor>r\<rfloor> else \<lceil>r\<rceil>)"

definition Duration_of_float64 :: "platform \<Rightarrow> float64 \<Rightarrow> Duration" where
  "Duration_of_float64 pf f =
     (case f of
        Finite r \<Rightarrow>
          if - (2 ^ 63) \<le> truncate_rat r \<and> truncate_rat r < 2 ^ 63 then truncate_rat r
          else wrap64 (conv_unrepresentable pf f)
      | PosInf \<Rightarrow> wrap64 (conv_unrepresentable pf f)
      | NegInf \<Rightarrow> wrap64 (conv_unrepresentable pf f)
      | NaN \<Rightarrow> wrap64 (conv_unrepresentable pf f))"

subsection \<open>The blocking pop\<close>

text \<open>
  The first two statements of \<^verbatim>\<open>BQPop\<close>:
  \<^verbatim>\<open>timeout := time.Duration(time.Second * time.Duration(timeoutSeconds))\<close> and
  \<^verbatim>\<open>expiry := time.Now().Add(timeout)\<close>.
\<close>

definition BQPop_timeout :: "platform \<Rightarrow> float64 \<Rightarrow> Duration" where
  "BQPop_timeout pf timeoutSeconds = wrap64 (Second * Duration_of_float64 pf timeoutSeconds)"

definition BQPop_expiry :: "platform \<Rightarrow> time \<Rightarrow> float64 \<Rightarrow> time" where
  "BQPop_expiry pf now timeoutSeconds = Add now (BQPop_timeout pf timeoutSeconds)"

text \<open>
  The \<^verbatim>\<open>for\<close> loop of \<^verbatim>\<open>BQPop\<close>, run with no other caller of the store between two
  polls. A poll takes \<open>poll_cost\<close>; \<^verbatim>\<open>time.Sleep\<close> advances the clock by the 100
  milliseconds asked for. The result carries the time at which the method returns.
\<close>

function BQPop_loop :: "platform \<Rightarrow> Datastore \<Rightarrow> string \<Rightarrow> time \<Rightarrow> time
    \<Rightarrow> ((string \<times> int) \<times> Datastore) \<times> time" where
  "BQPop_loop pf ds key expiry_at now =
     (let t = now + int (poll_cost pf) in
      case data ds key of
        None \<Rightarrow>
          if After t expiry_at then ((('''', StatusNotFound), ds), t)
          else BQPop_loop pf ds key expiry_at (t + 100 * Millisecond)
      | Some d \<Rightarrow>
          if \<not> isQueued d \<or> length (queue d) = 0
          then
            if After t expiry_at then ((('''', StatusNotFound), ds), t)
            else BQPop_loop pf ds key expiry_at (t + 100 * Millisecond)
          else
            (((queue d ! (length (queue d) - 1), StatusOK),
              ds\<lparr>data := (data ds)(key \<mapsto>
                   d\<lparr>queue := take (length (queue d) - 1) (queue d)\<rparr>)\<rparr>), t))"
  by pat_completeness auto
termination
  by (relation "measure (\<lambda>(pf, ds, key, expiry_at, now). nat (expiry_at - now + 1))")
     (auto simp: After_def)

declare BQPop_loop.simps [simp del]

definition BQPop :: "platform \<Rightarrow> Datastore \<Rightarrow> time \<Rightarrow> string \<Rightarrow> float64
    \<Rightarrow> ((string \<times> int) \<times> Datastore) \<times> time" where
  "BQPop pf ds now key timeoutSeconds =
     BQPop_loop pf ds key (BQPop_expiry pf now timeoutSeconds) now"

subsection \<open>Panics\<close>

text \<open>
  An index or a slice bound out of range stops a Go function with a run-time panic. The
  dispatcher indexes \<^verbatim>\<open>args\<close> and slices a string, so its model returns either the
  panic or the result; \<open>index xs i\<close> is \<^verbatim>\<open>xs[i]\<close> and \<open>slice_from xs i\<close> is
  \<^verbatim>\<open>xs[i:]\<close>.
\<close>

datatype panic = IndexOutOfRange | SliceBoundsOutOfRange

definition index :: "'a list \<Rightarrow> nat \<Rightarrow> panic + 'a" where
  "index xs i = (if i < length xs then Inr (xs ! i) else Inl IndexOutOfRange)"

definition slice_from :: "'a list \<Rightarrow> nat \<Rightarrow> panic + 'a list" where
  "slice_from xs i = (if i \<le> length xs then Inr (drop i xs) else Inl SliceBoundsOutOfRange)"

definition bind :: "panic + 'a \<Rightarrow> ('a \<Rightarrow> panic + 'b) \<Rightarrow> panic + 'b" where
  "bind m f = (case m of Inl p \<Rightarrow> Inl p | Inr x \<Rightarrow> f x)"

subsection \<open>Parser and validators\<close>

text \<open>
  \<^verbatim>\<open>strings.Split(s, sep)\<close> for a separator of one byte, which is how the program calls
  it: the pieces of \<open>s\<close> between the separators, at least one piece.
\<close>

fun Split :: "string \<Rightarrow> char \<Rightarrow> string list" where
  "Split [] sep = [[]]"
| "Split (c # cs) sep =
     (if c = sep then [] # Split cs sep
      else (case Split cs sep of [] \<Rightarrow> [[c]] | w # ws \<Rightarrow> (c # w) # ws))"

definition HasPrefix :: "string \<Rightarrow> string \<Rightarrow> bool" where
  "HasPrefix s pre = (length pre \<le> length s \<and> take (length pre) s = pre)"

definition ValidateSetInput :: "string list \<Rightarrow> panic + bool" where
  "ValidateSetInput args =
     (if length args < 2 then Inr False
      else if length args > 5 then Inr False
      else
        bind (if length args \<ge> 4
              then bind (index args 2)
                     (\<lambda>a2. Inr (\<not> HasPrefix a2 ''EX'' \<or> length a2 \<le> 2))
              else Inr False)
          (\<lambda>bad_expiry.
             if bad_expiry then Inr False
             else
               bind (if length args = 5
                     then bind (index args 4) (\<lambda>a4. Inr (a4 \<noteq> ''NX'' \<and> a4 \<noteq> ''XX''))
                     else Inr False)
                 (\<lambda>bad_conditional. if bad_conditional then Inr False else Inr True)))"

definition ValidateBQPopInput :: "platform \<Rightarrow> string list \<Rightarrow> panic + bool" where
  "ValidateBQPopInput pf args =
     (if length args \<noteq> 2 then Inr False
      else bind (index args 1) (\<lambda>a1. if \<not> snd (ParseFloat pf a1) then Inr False else Inr True))"

definition ParseCommand :: "platform \<Rightarrow> string \<Rightarrow> panic + (string \<times> string list)" where
  "ParseCommand pf rawCommand =
     bind (index (Split rawCommand CHR '' '') 0)
       (\<lambda>a0. bind (slice_from (Split rawCommand CHR '' '') 1)
          (\<lambda>args. Inr (ToUpper pf a0, args)))"

subsection \<open>The dispatcher\<close>

text \<open>
  The \<^verbatim>\<open>interface{}\<close> that \<^verbatim>\<open>HandleCommand\<close> returns is a string, a
  \<^verbatim>\<open>map[string]string\<close> literal with one key, or \<^verbatim>\<open>nil\<close>.
\<close>

datatype payload = Text string | Fields "(string \<times> string) list" | Null

definition HandleCommand :: "platform \<Rightarrow> Datastore \<Rightarrow> time \<Rightarrow> string
    \<Rightarrow> panic + ((payload \<times> int) \<times> Datastore)" where
  "HandleCommand pf ds now rawCommand =
     bind (ParseCommand pf rawCommand) (\<lambda>(command, args).
       if command = ''SET'' then
         bind (ValidateSetInput args) (\<lambda>valid.
           if \<not> valid then Inr ((Text ''Invalid Command'', StatusBadRequest), ds)
           else
             bind (index args 0) (\<lambda>key.
             bind (index args 1) (\<lambda>v.
             bind (if length args \<ge> 3
                   then bind (index args 2) (\<lambda>a2.
                        bind (slice_from a2 2) (\<lambda>digits. Inr (Atoi pf digits)))
                   else Inr 0) (\<lambda>expirySeconds.
             bind (if length args = 5 then index args 4 else Inr '''') (\<lambda>conditional.
               case Set ds now key v expirySeconds conditional of
                 ((msg, status), ds') \<Rightarrow> Inr ((Text msg, status), ds'))))))
       else if command = ''GET'' then
         if length args \<noteq> 1 then Inr ((Text ''Invalid Command'', StatusBadRequest), ds)
         else
           bind (index args 0) (\<lambda>key.
             case Get ds now key of
               ((v, status), ds') \<Rightarrow>
                 if status = StatusOK then Inr ((Fields [(''value'', v)], status), ds')
                 else Inr ((Text v, status), ds'))
       else if command = ''QPUSH'' then
         if length args < 2 then Inr ((Null, StatusBadRequest), ds)
         else
           bind (index args 0) (\<lambda>key.
           bind (slice_from args 1) (\<lambda>vals.
             case QPush ds key vals of
               ((msg, status), ds') \<Rightarrow> Inr ((Text msg, status), ds')))
       else if command = ''QPOP'' then
         if length args \<noteq> 1 then Inr ((Null, StatusBadRequest), ds)
         else
           bind (index args 0) (\<lambda>key.
             case QPop ds key of
               ((v, status), ds') \<Rightarrow>
                 if status = StatusOK then Inr ((Fields [(''value'', v)], status), ds')
                 else Inr ((Fields [(''error'', v)], status), ds'))
       else if command = ''BQPOP'' then
         bind (ValidateBQPopInput pf args) (\<lambda>valid.
           if \<not> valid then Inr ((Null, StatusBadRequest), ds)
           else
             bind (index args 0) (\<lambda>key.
             bind (index args 1) (\<lambda>a1.
               case BQPop pf ds now key (fst (ParseFloat pf a1)) of
                 (((v, status), ds'), t) \<Rightarrow>
                   if status = StatusOK then Inr ((Fields [(''value'', v)], status), ds')
                   else Inr ((Null, status), ds'))))
       else Inr ((Text ''Invalid Command'', StatusBadRequest), ds))"

subsection \<open>Sequences of store operations\<close>

text \<open>
  A call of one of the five methods, with the clock reading it gets, and the store after
  a sequence of calls.
\<close>

datatype op =
    SetOp time string string int string
  | GetOp time string
  | QPushOp string "string list"
  | QPopOp string
  | BQPopOp time string float64

fun step :: "platform \<Rightarrow> Datastore \<Rightarrow> op \<Rightarrow> Datastore" where
  "step pf ds (SetOp now key v expirySeconds conditional) =
     snd (Set ds now key v expirySeconds conditional)"
| "step pf ds (GetOp now key) = snd (Get ds now key)"
| "step pf ds (QPushOp key vals) = snd (QPush ds key vals)"
| "step pf ds (QPopOp key) = snd (QPop ds key)"
| "step pf ds (BQPopOp now key timeoutSeconds) = snd (fst (BQPop pf ds now key timeoutSeconds))"

fun run :: "platform \<Rightarrow> Datastore \<Rightarrow> op list \<Rightarrow> Datastore" where
  "run pf ds [] = ds"
| "run pf ds (x # xs) = run pf (step pf ds x) xs"

fun sets_key :: "string \<Rightarrow> op \<Rightarrow> bool" where
  "sets_key k (SetOp now key v expirySeconds conditional) = (key = k)"
| "sets_key k (GetOp now key) = False"
| "sets_key k (QPushOp key vals) = False"
| "sets_key k (QPopOp key) = False"
| "sets_key k (BQPopOp now key timeoutSeconds) = False"

subsection \<open>A platform to run the model on\<close>

text \<open>
  The examples below run the model on commands of ASCII letters and digits, on a
  platform that upper-cases the letters a to z, reads a string of decimal digits as its
  number (0 for any other string, as \<^verbatim>\<open>strconv.Atoi\<close> does on a syntax error), accepts
  as a floating-point number a string of one to fifteen decimal digits, converts an
  unrepresentable \<^verbatim>\<open>float64\<close> to the least \<^verbatim>\<open>int64\<close>, and polls in no time.
\<close>

definition upper_ascii :: "char \<Rightarrow> char" where
  "upper_ascii c =
     (case map_of (zip ''abcdefghijklmnopqrstuvwxyz'' ''ABCDEFGHIJKLMNOPQRSTUVWXYZ'') c of
        None \<Rightarrow> c
      | Some u \<Rightarrow> u)"

definition is_digit :: "char \<Rightarrow> bool" where
  "is_digit c = (c \<in> set ''0123456789'')"

definition decimal :: "string \<Rightarrow> int" where
  "decimal s = foldl (\<lambda>n c. 10 * n + (of_char c - 48)) 0 s"

definition ascii_platform :: platform where
  "ascii_platform =
     \<lparr>ToUpper = map upper_ascii,
      Atoi = (\<lambda>s. if s \<noteq> [] \<and> length s < 19 \<and> list_all is_digit s then decimal s else 0),
      ParseFloat = (\<lambda>s. if s \<noteq> [] \<and> length s \<le> 15 \<and> list_all is_digit s
                         then (Finite (of_int (decimal s)), True)
                         else (Finite 0, False)),
      conv_unrepresentable = (\<lambda>f. - (2 ^ 63)),
      poll_cost = 0\<rparr>"

section \<open>Properties of the store\<close>

subsection \<open>What the methods leave alone\<close>

text \<open>
  \<^verbatim>\<open>Get\<close> returns the store it was given. \<^verbatim>\<open>QPush\<close>, \<^verbatim>\<open>QPop\<close> and \<^verbatim>\<open>BQPop\<close> on any
  key, and \<^verbatim>\<open>Set\<close> on another key, keep an existing entry and change at most its queue.
\<close>

lemma Get_store: "snd (Get ds now key) = ds"
  by (simp add: Get_def split: option.splits)

lemma QPush_entry:
  assumes "data ds key = Some d"
  shows "\<exists>d'. data (snd (QPush ds k vals)) key = Some d' \<and> value_str d' = value_str d \<and>
           expiry d' = expiry d \<and> isQueued d' = isQueued d"
  using assms by (cases "k = key") (auto simp: QPush_def split: option.splits)

lemma QPop_entry:
  assumes "data ds key = Some d"
  shows "\<exists>d'. data (snd (QPop ds k)) key = Some d' \<and> value_str d' = value_str d \<and>
           expiry d' = expiry d \<and> isQueued d' = isQueued d"
  using assms by (cases "k = key") (auto simp: QPop_def split: option.splits)

lemma BQPop_loop_entry:
  assumes "data ds key = Some d"
  shows "\<exists>d'. data (snd (fst (BQPop_loop pf ds k e now))) key = Some d' \<and>
           value_str d' = value_str d \<and> expiry d' = expiry d \<and> isQueued d' = isQueued d"
  using assms
proof (induction pf ds k e now rule: BQPop_loop.induct)
  case (1 pf ds k e now)
  show ?case
  proof (cases "data ds k")
    case None
    show ?thesis
    proof (cases "After (now + int (poll_cost pf)) e")
      case True
      with None "1.prems" show ?thesis
        by (subst BQPop_loop.simps) (simp add: Let_def)
    next
      case False
      with None "1.IH"(1) [OF refl None False "1.prems"] show ?thesis
        by (subst BQPop_loop.simps) (simp add: Let_def)
    qed
  next
    case (Some d')
    show ?thesis
    proof (cases "\<not> isQueued d' \<or> length (queue d') = 0")
      case True
      show ?thesis
      proof (cases "After (now + int (poll_cost pf)) e")
        case After: True
        with Some True "1.prems" show ?thesis
          by (subst BQPop_loop.simps) (auto simp add: Let_def)
      next
        case False
        with Some True "1.IH"(2) [OF refl Some True False "1.prems"] show ?thesis
          by (subst BQPop_loop.simps) (auto simp add: Let_def)
      qed
    next
      case False
      with Some "1.prems" show ?thesis
        by (subst BQPop_loop.simps) (cases "k = key"; auto simp add: Let_def)
    qed
  qed
qed

lemma Set_other_entry:
  "k \<noteq> key \<Longrightarrow> data (snd (Set ds now k v es c)) key = data ds key"
  by (simp add: Set_def Let_def)

lemma step_entry:
  assumes "data ds key = Some d" and "\<not> sets_key key x"
  shows "\<exists>d'. data (step pf ds x) key = Some d' \<and> value_str d' = value_str d \<and>
           expiry d' = expiry d \<and> isQueued d' = isQueued d"
proof (cases x)
  case (SetOp now k v es c)
  with assms show ?thesis by (simp add: Set_other_entry)
next
  case (GetOp now k)
  with assms show ?thesis by (simp add: Get_store)
next
  case (QPushOp k vals)
  with QPush_entry [OF assms(1)] show ?thesis by simp
next
  case (QPopOp k)
  with QPop_entry [OF assms(1)] show ?thesis by simp
next
  case (BQPopOp now k f)
  with BQPop_loop_entry [OF assms(1)] show ?thesis by (simp add: BQPop_def)
qed

lemma run_entry:
  assumes "data ds key = Some d" and "\<forall>x \<in> set xs. \<not> sets_key key x"
  shows "\<exists>d'. data (run pf ds xs) key = Some d' \<and> value_str d' = value_str d \<and>
           expiry d' = expiry d \<and> isQueued d' = isQueued d"
  using assms
proof (induction xs arbitrary: ds d)
  case Nil
  then show ?case by simp
next
  case (Cons x xs)
  from Cons.prems obtain d1 where d1: "data (step pf ds x) key = Some d1"
    and eq1: "value_str d1 = value_str d" "expiry d1 = expiry d" "isQueued d1 = isQueued d"
    using step_entry [of ds key d x pf] by auto
  from Cons.IH [OF d1] Cons.prems(2) eq1 show ?case by simp
qed

subsection \<open>The kind of an entry\<close>

text \<open>
  Claim C3 says that the kind of an entry never changes and that \<^verbatim>\<open>Set\<close> on a key of
  kind Queue fails with Conflict. The code of \<^verbatim>\<open>Set\<close> has no test of \<open>isQueued\<close>:
  the theorem below is the claim as the code has it.
  \<^item> Over every sequence of calls with no \<^verbatim>\<open>Set\<close> on the key, an existing entry keeps its
    kind.
  \<^item> \<^verbatim>\<open>QPush\<close> on a key of kind Scalar returns Conflict and the store is unchanged.
  \<^item> \<^verbatim>\<open>Set\<close> on an existing key, with a conditional other than NX, returns OK and the
    entry is of kind Scalar afterwards, whatever its kind was.
\<close>

theorem kind_changes_only_by_Set:
  "(data ds key = Some d \<and> (\<forall>x \<in> set xs. \<not> sets_key key x)
      \<longrightarrow> map_option isQueued (data (run pf ds xs) key) = Some (isQueued d)) \<and>
   (data ds key = Some d \<and> \<not> isQueued d
      \<longrightarrow> QPush ds key vals = ((''Key already exists'', StatusConflict), ds)) \<and>
   (data ds key = Some d \<and> conditional \<noteq> ''NX''
      \<longrightarrow> fst (Set ds now key v expirySeconds conditional) = (''Enter data sucessfull'', StatusOK) \<and>
          map_option isQueued (data (snd (Set ds now key v expirySeconds conditional)) key)
            = Some False)"
proof (intro conjI impI)
  assume "data ds key = Some d \<and> (\<forall>x \<in> set xs. \<not> sets_key key x)"
  then obtain d' where "data (run pf ds xs) key = Some d'" "isQueued d' = isQueued d"
    using run_entry [of ds key d xs pf] by auto
  then show "map_option isQueued (data (run pf ds xs) key) = Some (isQueued d)" by simp
next
  assume "data ds key = Some d \<and> \<not> isQueued d"
  then show "QPush ds key vals = ((''Key already exists'', StatusConflict), ds)"
    by (simp add: QPush_def)
next
  assume a: "data ds key = Some d \<and> conditional \<noteq> ''NX''"
  then show "fst (Set ds now key v expirySeconds conditional) = (''Enter data sucessfull'', StatusOK)"
    by (simp add: Set_def Let_def)
  from a show "map_option isQueued (data (snd (Set ds now key v expirySeconds conditional)) key)
            = Some False"
    by (simp add: Set_def Let_def)
qed

text \<open>The theorem at a store with one Scalar entry.\<close>

theorem kind_changes_only_by_Set_witness:
  "map_option isQueued
     (data (run ascii_platform
              \<lparr>data = [''k'' \<mapsto> \<lparr>value_str = ''v'', expiry = 0, isQueued = False, queue = []\<rparr>]\<rparr>
              [QPushOp ''k'' [''a''], QPopOp ''k'', GetOp 5 ''k'', SetOp 5 ''j'' ''w'' 0 '''',
               BQPopOp 5 ''k'' (Finite 0)]) ''k'') = Some False \<and>
   QPush \<lparr>data = [''k'' \<mapsto> \<lparr>value_str = ''v'', expiry = 0, isQueued = False, queue = []\<rparr>]\<rparr>
     ''k'' [''a'']
     = ((''Key already exists'', StatusConflict),
        \<lparr>data = [''k'' \<mapsto> \<lparr>value_str = ''v'', expiry = 0, isQueued = False, queue = []\<rparr>]\<rparr>) \<and>
   fst (Set \<lparr>data = [''k'' \<mapsto> \<lparr>value_str = ''v'', expiry = 0, isQueued = False, queue = []\<rparr>]\<rparr>
          5 ''k'' ''w'' 0 ''XX'') = (''Enter data sucessfull'', StatusOK)"
proof -
  let ?d = "\<lparr>value_str = ''v'', expiry = 0, isQueued = False, queue = []\<rparr>"
  let ?ds = "\<lparr>data = [''k'' \<mapsto> ?d]\<rparr>"
  let ?xs = "[QPushOp ''k'' [''a''], QPopOp ''k'', GetOp 5 ''k'', SetOp 5 ''j'' ''w'' 0 '''',
              BQPopOp 5 ''k'' (Finite 0)]"
  have h1: "data ?ds ''k'' = Some ?d \<and> (\<forall>x \<in> set ?xs. \<not> sets_key ''k'' x)" by simp
  have h2: "data ?ds ''k'' = Some ?d \<and> \<not> isQueued ?d" by simp
  have h3: "data ?ds ''k'' = Some ?d \<and> ''XX'' \<noteq> ''NX''" by simp
  have q: "isQueued ?d = False" by simp
  from kind_changes_only_by_Set [of ?ds "''k''" ?d ?xs ascii_platform "[''a'']" "''XX''" 5 "''w''" 0]
    h1 h2 h3
  show ?thesis unfolding q by blast
qed

text \<open>
  Against claim C3 as stated: after \<^verbatim>\<open>QPush\<close> has created the queue \<open>q\<close>, a plain
  \<^verbatim>\<open>Set\<close> on \<open>q\<close> returns OK, not Conflict, and the entry is a Scalar.
\<close>

theorem Set_replaces_queue_counterexample:
  "map_option isQueued (data (snd (QPush NewDatastore ''q'' [''a''])) ''q'') = Some True \<and>
   fst (Set (snd (QPush NewDatastore ''q'' [''a''])) 1000 ''q'' ''v'' 0 '''')
     = (''Enter data sucessfull'', StatusOK) \<and>
   data (snd (Set (snd (QPush NewDatastore ''q'' [''a''])) 1000 ''q'' ''v'' 0 '''')) ''q''
     = Some \<lparr>value_str = ''v'', expiry = 0, isQueued = False, queue = []\<rparr>"
  by (simp add: QPush_def Set_def NewDatastore_def)

subsection \<open>Queues are popped from the tail\<close>

text \<open>
  \<^verbatim>\<open>QPop\<close> on a queue that is not empty returns its last element and keeps the others;
  after a \<^verbatim>\<open>QPush\<close> that returned OK the key holds a queue that ends with the values
  pushed.
\<close>

lemma QPop_nonempty:
  assumes "data ds q = Some d" and "isQueued d" and "queue d \<noteq> []"
  shows "QPop ds q
    = ((last (queue d), StatusOK),
       ds\<lparr>data := (data ds)(q \<mapsto> d\<lparr>queue := butlast (queue d)\<rparr>)\<rparr>)"
  using assms by (simp add: QPop_def last_conv_nth butlast_conv_take)

lemma QPush_OK_entry:
  assumes "snd (fst (QPush ds q vals)) = StatusOK"
  shows "\<exists>d. data (snd (QPush ds q vals)) q = Some d \<and> isQueued d \<and>
           (\<exists>old. queue d = old @ vals)"
  using assms by (auto simp: QPush_def split: option.splits if_splits)

text \<open>
  Claim C4. On a key \<open>q\<close> that the store does not hold, after \<^verbatim>\<open>QPush(q, a, b)\<close> the first
  \<^verbatim>\<open>QPop(q)\<close> returns \<open>b\<close> with OK, the second returns \<open>a\<close> with OK and the third
  returns BadRequest. In general \<^verbatim>\<open>QPop\<close> on a queue that is not empty removes and
  returns its last element, and right after a \<^verbatim>\<open>QPush\<close> of at least one value that
  returned OK it returns the last value pushed.
\<close>

theorem QPush_QPop_LIFO:
  "(data ds q = None \<longrightarrow>
      QPop (snd (QPush ds q [a, b])) q
        = ((b, StatusOK),
           ds\<lparr>data := (data ds)(q \<mapsto>
                \<lparr>value_str = '''', expiry = 0, isQueued = True, queue = [a]\<rparr>)\<rparr>) \<and>
      QPop (snd (QPop (snd (QPush ds q [a, b])) q)) q
        = ((a, StatusOK),
           ds\<lparr>data := (data ds)(q \<mapsto>
                \<lparr>value_str = '''', expiry = 0, isQueued = True, queue = []\<rparr>)\<rparr>) \<and>
      fst (QPop (snd (QPop (snd (QPop (snd (QPush ds q [a, b])) q)) q)) q)
        = (''Q is empty so nothing can be popped!!'', StatusBadRequest)) \<and>
   (data ds q = Some d \<and> isQueued d \<and> queue d \<noteq> [] \<longrightarrow>
      QPop ds q
        = ((last (queue d), StatusOK),
           ds\<lparr>data := (data ds)(q \<mapsto> d\<lparr>queue := butlast (queue d)\<rparr>)\<rparr>)) \<and>
   (vals \<noteq> [] \<and> snd (fst (QPush ds q vals)) = StatusOK \<longrightarrow>
      fst (QPop (snd (QPush ds q vals)) q) = (last vals, StatusOK))"
proof (intro conjI impI)
  assume fresh: "data ds q = None"
  then show "QPop (snd (QPush ds q [a, b])) q
        = ((b, StatusOK),
           ds\<lparr>data := (data ds)(q \<mapsto>
                \<lparr>value_str = '''', expiry = 0, isQueued = True, queue = [a]\<rparr>)\<rparr>)"
    by (simp add: QPush_def QPop_def)
  then show "QPop (snd (QPop (snd (QPush ds q [a, b])) q)) q
        = ((a, StatusOK),
           ds\<lparr>data := (data ds)(q \<mapsto>
                \<lparr>value_str = '''', expiry = 0, isQueued = True, queue = []\<rparr>)\<rparr>)"
    by (simp add: QPop_def)
  then show "fst (QPop (snd (QPop (snd (QPop (snd (QPush ds q [a, b])) q)) q)) q)
        = (''Q is empty so nothing can be popped!!'', StatusBadRequest)"
    by (simp add: QPop_def)
next
  assume "data ds q = Some d \<and> isQueued d \<and> queue d \<noteq> []"
  then show "QPop ds q
        = ((last (queue d), StatusOK),
           ds\<lparr>data := (data ds)(q \<mapsto> d\<lparr>queue := butlast (queue d)\<rparr>)\<rparr>)"
    by (simp add: QPop_nonempty)
next
  assume a: "vals \<noteq> [] \<and> snd (fst (QPush ds q vals)) = StatusOK"
  then obtain d' old where d': "data (snd (QPush ds q vals)) q = Some d'" "isQueued d'"
      "queue d' = old @ vals"
    using QPush_OK_entry [of ds q vals] by blast
  with a have "queue d' \<noteq> []" "last (queue d') = last vals" by simp_all
  with d' show "fst (QPop (snd (QPush ds q vals)) q) = (last vals, StatusOK)"
    by (simp add: QPop_nonempty)
qed

text \<open>The theorem on the new store, and on a stored queue of three elements.\<close>

theorem QPush_QPop_LIFO_witness:
  "QPop (snd (QPush NewDatastore ''q'' [''a'', ''b''])) ''q''
     = ((''b'', StatusOK),
        NewDatastore\<lparr>data := (data NewDatastore)(''q'' \<mapsto>
          \<lparr>value_str = '''', expiry = 0, isQueued = True, queue = [''a'']\<rparr>)\<rparr>) \<and>
   QPop (snd (QPop (snd (QPush NewDatastore ''q'' [''a'', ''b''])) ''q'')) ''q''
     = ((''a'', StatusOK),
        NewDatastore\<lparr>data := (data NewDatastore)(''q'' \<mapsto>
          \<lparr>value_str = '''', expiry = 0, isQueued = True, queue = []\<rparr>)\<rparr>) \<and>
   fst (QPop (snd (QPop (snd (QPop (snd (QPush NewDatastore ''q'' [''a'', ''b''])) ''q'')) ''q''))
          ''q'')
     = (''Q is empty so nothing can be popped!!'', StatusBadRequest) \<and>
   fst (QPop \<lparr>data = [''q'' \<mapsto> \<lparr>value_str = '''', expiry = 0, isQueued = True,
                                  queue = [''x'', ''y'', ''z'']\<rparr>]\<rparr> ''q'') = (''z'', StatusOK) \<and>
   fst (QPop (snd (QPush NewDatastore ''q'' [''x'', ''y''])) ''q'') = (''y'', StatusOK)"
proof -
  let ?d = "\<lparr>value_str = '''', expiry = 0, isQueued = True, queue = [''x'', ''y'', ''z'']\<rparr>"
  let ?ds = "\<lparr>data = [''q'' \<mapsto> ?d]\<rparr>"
  have h1: "data NewDatastore ''q'' = None" by (simp add: NewDatastore_def)
  have h2: "data ?ds ''q'' = Some ?d \<and> isQueued ?d \<and> queue ?d \<noteq> []"
    by simp
  have h3: "[''x'', ''y''] \<noteq> [] \<and> snd (fst (QPush NewDatastore ''q'' [''x'', ''y''])) = StatusOK"
    by (simp add: QPush_def NewDatastore_def)
  note fresh = QPush_QPop_LIFO [where ds = NewDatastore and q = "''q''" and a = "''a''"
      and b = "''b''" and d = ?d and vals = "[''x'', ''y'']"]
  note stored = QPush_QPop_LIFO [where ds = ?ds and q = "''q''" and a = "''a''"
      and b = "''b''" and d = ?d and vals = "[''x'', ''y'']"]
  from stored h2 have "QPop ?ds ''q''
      = ((last (queue ?d), StatusOK), ?ds\<lparr>data := (data ?ds)(''q'' \<mapsto> ?d\<lparr>queue := butlast (queue ?d)\<rparr>)\<rparr>)"
    by blast
  then have c4: "fst (QPop ?ds ''q'') = (''z'', StatusOK)" by simp
  from fresh h3
  have "fst (QPop (snd (QPush NewDatastore ''q'' [''x'', ''y''])) ''q'') = (last [''x'', ''y''], StatusOK)"
    by blast
  then have c5: "fst (QPop (snd (QPush NewDatastore ''q'' [''x'', ''y''])) ''q'') = (''y'', StatusOK)"
    by simp
  from fresh h1 c4 c5 show ?thesis by blast
qed

subsection \<open>Conditional writes\<close>

text \<open>
  Claim C5. \<^verbatim>\<open>Set\<close> with NX on a key that the store holds returns Conflict, \<^verbatim>\<open>Set\<close>
  with XX on a key that the store does not hold returns NotFound, and in both cases the
  store returned is the store given: no entry is created and no field is changed.
\<close>

theorem Set_NX_XX_failures_keep_store:
  "(data ds key \<noteq> None \<longrightarrow>
      Set ds now key v expirySeconds ''NX'' = (('''', StatusConflict), ds)) \<and>
   (data ds key = None \<longrightarrow>
      Set ds now key v expirySeconds ''XX'' = (('''', StatusNotFound), ds))"
  by (simp add: Set_def)

text \<open>The theorem at a store that holds \<open>k\<close>, and at the new store.\<close>

theorem Set_NX_XX_failures_keep_store_witness:
  "Set \<lparr>data = [''k'' \<mapsto> \<lparr>value_str = ''v'', expiry = 0, isQueued = False, queue = []\<rparr>]\<rparr>
     5 ''k'' ''w'' 10 ''NX''
     = (('''', StatusConflict),
        \<lparr>data = [''k'' \<mapsto> \<lparr>value_str = ''v'', expiry = 0, isQueued = False, queue = []\<rparr>]\<rparr>) \<and>
   Set NewDatastore 5 ''k'' ''w'' 10 ''XX'' = (('''', StatusNotFound), NewDatastore)"
proof -
  let ?ds = "\<lparr>data = [''k'' \<mapsto> \<lparr>value_str = ''v'', expiry = 0, isQueued = False, queue = []\<rparr>]\<rparr>"
  have h1: "data ?ds ''k'' \<noteq> None" by simp
  have h2: "data NewDatastore ''k'' = None" by (simp add: NewDatastore_def)
  from Set_NX_XX_failures_keep_store [of ?ds "''k''" 5 "''w''" 10] h1
  have c1: "Set ?ds 5 ''k'' ''w'' 10 ''NX'' = (('''', StatusConflict), ?ds)" by blast
  from Set_NX_XX_failures_keep_store [of NewDatastore "''k''" 5 "''w''" 10] h2
  have c2: "Set NewDatastore 5 ''k'' ''w'' 10 ''XX'' = (('''', StatusNotFound), NewDatastore)"
    by blast
  from c1 c2 show ?thesis by blast
qed

text \<open>
  Claim C10. The tests of NX and XX do not read the expiry. On a key whose entry has
  expired, so that \<^verbatim>\<open>Get\<close> returns NotFound, \<^verbatim>\<open>Set\<close> with NX returns Conflict and
  leaves the store as it is, and \<^verbatim>\<open>Set\<close> with XX returns OK and stores the new entry.
\<close>

theorem Set_NX_XX_ignore_expiry:
  "data ds key = Some d \<and> \<not> IsZero (expiry d) \<and> expiry d \<le> now \<longrightarrow>
     fst (Get ds now key) = (''Key not exist'', StatusNotFound) \<and>
     Set ds now key v expirySeconds ''NX'' = (('''', StatusConflict), ds) \<and>
     Set ds now key v expirySeconds ''XX''
       = ((''Enter data sucessfull'', StatusOK),
          ds\<lparr>data := (data ds)(key \<mapsto>
               \<lparr>value_str = v,
                expiry = (if expirySeconds > 0
                          then now + wrap64 (wrap64 expirySeconds * Second) else 0),
                isQueued = False, queue = []\<rparr>)\<rparr>)"
  by (simp add: Get_def Set_def Before_def Add_def)

text \<open>The theorem at an entry that expired at time 7, read and written at time 9.\<close>

theorem Set_NX_XX_ignore_expiry_witness:
  "fst (Get \<lparr>data = [''k'' \<mapsto> \<lparr>value_str = ''v'', expiry = 7, isQueued = False, queue = []\<rparr>]\<rparr>
          9 ''k'') = (''Key not exist'', StatusNotFound) \<and>
   Set \<lparr>data = [''k'' \<mapsto> \<lparr>value_str = ''v'', expiry = 7, isQueued = False, queue = []\<rparr>]\<rparr>
     9 ''k'' ''w'' 0 ''NX''
     = (('''', StatusConflict),
        \<lparr>data = [''k'' \<mapsto> \<lparr>value_str = ''v'', expiry = 7, isQueued = False, queue = []\<rparr>]\<rparr>) \<and>
   Set \<lparr>data = [''k'' \<mapsto> \<lparr>value_str = ''v'', expiry = 7, isQueued = False, queue = []\<rparr>]\<rparr>
     9 ''k'' ''w'' 0 ''XX''
     = ((''Enter data sucessfull'', StatusOK),
        \<lparr>data = [''k'' \<mapsto> \<lparr>value_str = ''w'', expiry = 0, isQueued = False, queue = []\<rparr>]\<rparr>)"
proof -
  let ?d = "\<lparr>value_str = ''v'', expiry = 7, isQueued = False, queue = []\<rparr>"
  let ?ds = "\<lparr>data = [''k'' \<mapsto> ?d]\<rparr>"
  have h: "data ?ds ''k'' = Some ?d \<and> \<not> IsZero (expiry ?d) \<and> expiry ?d \<le> 9"
    by (simp add: IsZero_def)
  from Set_NX_XX_ignore_expiry [where ds = ?ds and key = "''k''" and d = ?d and now = 9
      and v = "''w''" and expirySeconds = 0] h
  have "fst (Get ?ds 9 ''k'') = (''Key not exist'', StatusNotFound) \<and>
     Set ?ds 9 ''k'' ''w'' 0 ''NX'' = (('''', StatusConflict), ?ds) \<and>
     Set ?ds 9 ''k'' ''w'' 0 ''XX''
       = ((''Enter data sucessfull'', StatusOK),
          ?ds\<lparr>data := (data ?ds)(''k'' \<mapsto>
               \<lparr>value_str = ''w'',
                expiry = (if (0::int) > 0 then 9 + wrap64 (wrap64 0 * Second) else 0),
                isQueued = False, queue = []\<rparr>)\<rparr>)"
    by blast
  then show ?thesis by simp
qed

subsection \<open>Reads\<close>

text \<open>
  Claim C6. \<^verbatim>\<open>Get\<close> returns NotFound for a key that the store does not hold and for a
  key whose entry has an expiry that is not the zero time and is not after \<open>now\<close>; and
  \<^verbatim>\<open>Get\<close> returns the store it was given, so an expired entry stays where it is.
\<close>

theorem Get_expired_or_absent:
  "(data ds key = None \<longrightarrow> fst (Get ds now key) = (''Key not exist'', StatusNotFound)) \<and>
   (data ds key = Some d \<and> \<not> IsZero (expiry d) \<and> expiry d \<le> now \<longrightarrow>
      fst (Get ds now key) = (''Key not exist'', StatusNotFound)) \<and>
   snd (Get ds now key) = ds"
  by (auto simp: Get_def Before_def split: option.splits)

text \<open>The theorem at the new store, and at an entry that expires at the time of the read.\<close>

theorem Get_expired_or_absent_witness:
  "fst (Get NewDatastore 7 ''k'') = (''Key not exist'', StatusNotFound) \<and>
   fst (Get \<lparr>data = [''k'' \<mapsto> \<lparr>value_str = ''v'', expiry = 7, isQueued = False, queue = []\<rparr>]\<rparr>
          7 ''k'') = (''Key not exist'', StatusNotFound) \<and>
   snd (Get \<lparr>data = [''k'' \<mapsto> \<lparr>value_str = ''v'', expiry = 7, isQueued = False, queue = []\<rparr>]\<rparr>
          7 ''k'')
     = \<lparr>data = [''k'' \<mapsto> \<lparr>value_str = ''v'', expiry = 7, isQueued = False, queue = []\<rparr>]\<rparr>"
proof -
  let ?d = "\<lparr>value_str = ''v'', expiry = 7, isQueued = False, queue = []\<rparr>"
  let ?ds = "\<lparr>data = [''k'' \<mapsto> ?d]\<rparr>"
  have h1: "data NewDatastore ''k'' = None" by (simp add: NewDatastore_def)
  have h2: "data ?ds ''k'' = Some ?d \<and> \<not> IsZero (expiry ?d) \<and> expiry ?d \<le> 7"
    by (simp add: IsZero_def)
  from Get_expired_or_absent [of NewDatastore "''k''" 7] h1
  have c1: "fst (Get NewDatastore 7 ''k'') = (''Key not exist'', StatusNotFound)" by blast
  from Get_expired_or_absent [of ?ds "''k''" 7 ?d] h2
  have c2: "fst (Get ?ds 7 ''k'') = (''Key not exist'', StatusNotFound)"
    and c3: "snd (Get ?ds 7 ''k'') = ?ds" by blast+
  from c1 c2 c3 show ?thesis by blast
qed

text \<open>
  Claim C9. On a key that \<^verbatim>\<open>QPush\<close> has created, \<^verbatim>\<open>Get\<close> returns the empty string with
  OK: the entry has the empty \<open>value_str\<close> and the zero expiry, and \<^verbatim>\<open>Get\<close> does not
  read \<open>isQueued\<close>. This holds right after the \<^verbatim>\<open>QPush\<close>, and after any further calls
  among which there is no \<^verbatim>\<open>Set\<close> on the key.
\<close>

theorem Get_on_queue_key:
  "(data ds key = None \<longrightarrow>
      Get (snd (QPush ds key vals)) now key = (('''', StatusOK), snd (QPush ds key vals))) \<and>
   (data ds key = None \<and> (\<forall>x \<in> set xs. \<not> sets_key key x) \<longrightarrow>
      fst (Get (run pf (snd (QPush ds key vals)) xs) now key) = ('''', StatusOK))"
proof (intro conjI impI)
  assume "data ds key = None"
  then show "Get (snd (QPush ds key vals)) now key = (('''', StatusOK), snd (QPush ds key vals))"
    by (simp add: QPush_def Get_def IsZero_def)
next
  assume a: "data ds key = None \<and> (\<forall>x \<in> set xs. \<not> sets_key key x)"
  let ?d = "\<lparr>value_str = '''', expiry = 0, isQueued = True, queue = [] @ vals\<rparr>"
  from a have "data (snd (QPush ds key vals)) key = Some ?d"
    by (simp add: QPush_def)
  with a obtain d' where "data (run pf (snd (QPush ds key vals)) xs) key = Some d'"
      "value_str d' = value_str ?d" "expiry d' = expiry ?d"
    using run_entry [of "snd (QPush ds key vals)" key ?d xs pf] by blast
  then show "fst (Get (run pf (snd (QPush ds key vals)) xs) now key) = ('''', StatusOK)"
    by (simp add: Get_def IsZero_def)
qed

text \<open>The theorem at the new store, with three further calls.\<close>

theorem Get_on_queue_key_witness:
  "Get (snd (QPush NewDatastore ''q'' [''a'', ''b''])) 1000 ''q''
     = (('''', StatusOK), snd (QPush NewDatastore ''q'' [''a'', ''b''])) \<and>
   fst (Get (run ascii_platform (snd (QPush NewDatastore ''q'' [''a'', ''b'']))
               [QPopOp ''q'', QPushOp ''q'' [''c''], SetOp 5 ''k'' ''v'' 1 '''']) 1000 ''q'')
     = ('''', StatusOK)"
proof -
  let ?xs = "[QPopOp ''q'', QPushOp ''q'' [''c''], SetOp 5 ''k'' ''v'' 1 '''']"
  have h1: "data NewDatastore ''q'' = None" by (simp add: NewDatastore_def)
  have h2: "\<forall>x \<in> set ?xs. \<not> sets_key ''q'' x" by simp
  from Get_on_queue_key [where ds = NewDatastore and key = "''q''" and vals = "[''a'', ''b'']"
      and now = 1000 and xs = ?xs and pf = ascii_platform] h1 h2
  show ?thesis by blast
qed

subsection \<open>The empty queue\<close>

text \<open>
  Claim C8. A \<^verbatim>\<open>QPop\<close> that takes the only element of a queue returns it with OK and
  leaves the key in the store: the key maps to the same entry with the empty queue, of
  kind Queue, which is not the absence of the key.
\<close>

theorem QPop_last_element_keeps_key:
  "data ds key = Some d \<and> isQueued d \<and> queue d = [x] \<longrightarrow>
     fst (QPop ds key) = (x, StatusOK) \<and>
     data (snd (QPop ds key)) key = Some (d\<lparr>queue := []\<rparr>) \<and>
     data (snd (QPop ds key)) key \<noteq> None \<and>
     map_option isQueued (data (snd (QPop ds key)) key) = Some True \<and>
     map_option queue (data (snd (QPop ds key)) key) = Some []"
  by (simp add: QPop_nonempty)

text \<open>The theorem at a queue of one element.\<close>

theorem QPop_last_element_keeps_key_witness:
  "fst (QPop (snd (QPush NewDatastore ''q'' [''a''])) ''q'') = (''a'', StatusOK) \<and>
   data (snd (QPop (snd (QPush NewDatastore ''q'' [''a''])) ''q'')) ''q''
     = Some \<lparr>value_str = '''', expiry = 0, isQueued = True, queue = []\<rparr> \<and>
   data (snd (QPop (snd (QPush NewDatastore ''q'' [''a''])) ''q'')) ''q'' \<noteq> None"
proof -
  let ?d = "\<lparr>value_str = '''', expiry = 0, isQueued = True, queue = [''a'']\<rparr>"
  let ?ds = "snd (QPush NewDatastore ''q'' [''a''])"
  have h: "data ?ds ''q'' = Some ?d \<and> isQueued ?d \<and> queue ?d = [''a'']"
    by (simp add: QPush_def NewDatastore_def)
  from QPop_last_element_keeps_key [where ds = ?ds and key = "''q''" and d = ?d and x = "''a''"] h
  have "fst (QPop ?ds ''q'') = (''a'', StatusOK) \<and>
     data (snd (QPop ?ds ''q'')) ''q'' = Some (?d\<lparr>queue := []\<rparr>) \<and>
     data (snd (QPop ?ds ''q'')) ''q'' \<noteq> None"
    by blast
  then show ?thesis by simp
qed

section \<open>Properties of the dispatcher\<close>

subsection \<open>Parsing\<close>

text \<open>
  \<^verbatim>\<open>strings.Split\<close> returns at least one piece, so \<^verbatim>\<open>args[0]\<close> and \<^verbatim>\<open>args[1:]\<close> in
  \<^verbatim>\<open>ParseCommand\<close> are in range and the parser returns for every string.
\<close>

lemma bind_Inr [simp]: "bind (Inr x) f = f x"
  by (simp add: bind_def)

lemma bind_Inl [simp]: "bind (Inl p) f = Inl p"
  by (simp add: bind_def)

lemma Split_not_empty: "Split s sep \<noteq> []"
  by (induction s) (auto split: list.splits)

lemma ParseCommand_returns:
  "ParseCommand pf raw = Inr (ToUpper pf (hd (Split raw CHR '' '')), tl (Split raw CHR '' ''))"
proof -
  obtain w ws where "Split raw CHR '' '' = w # ws"
    using Split_not_empty [of raw "CHR '' ''"] by (cases "Split raw CHR '' ''") auto
  then show ?thesis
    by (simp add: ParseCommand_def index_def slice_from_def drop_Suc)
qed

text \<open>Commands of ASCII letters, parsed on the platform of the examples.\<close>

lemma parse_examples:
  "ParseCommand ascii_platform ''get k'' = Inr (''GET'', [''k''])"
  "ParseCommand ascii_platform ''QPOP q'' = Inr (''QPOP'', [''q''])"
  "ParseCommand ascii_platform ''SET k v E'' = Inr (''SET'', [''k'', ''v'', ''E''])"
  by (simp_all add: ParseCommand_def ascii_platform_def index_def slice_from_def upper_ascii_def)

subsection \<open>The payloads of GET and QPOP\<close>

text \<open>
  Claim C7. For a GET command with one argument, the dispatcher returns the status of
  \<^verbatim>\<open>Get\<close> and, when it is OK, the value in a map under the key \<open>value\<close>; otherwise it
  returns the message of \<^verbatim>\<open>Get\<close> as it is, a plain string. For a QPOP command with one
  argument it returns the status of \<^verbatim>\<open>QPop\<close> and a map in both cases: the value under
  \<open>value\<close> when the status is OK, the message under \<open>error\<close> otherwise, and that other
  status is BadRequest.
\<close>

theorem HandleCommand_wraps_GET_and_QPOP:
  "(ParseCommand pf raw = Inr (''GET'', [key]) \<and> Get ds now key = ((v, status), ds') \<longrightarrow>
      HandleCommand pf ds now raw
        = Inr ((if status = StatusOK then Fields [(''value'', v)] else Text v, status), ds')) \<and>
   (ParseCommand pf raw = Inr (''QPOP'', [key]) \<and> QPop ds key = ((v, status), ds') \<longrightarrow>
      HandleCommand pf ds now raw
        = Inr ((if status = StatusOK then Fields [(''value'', v)] else Fields [(''error'', v)],
                status), ds') \<and>
      (status \<noteq> StatusOK \<longrightarrow> status = StatusBadRequest))"
proof (intro conjI impI)
  assume "ParseCommand pf raw = Inr (''GET'', [key]) \<and> Get ds now key = ((v, status), ds')"
  then show "HandleCommand pf ds now raw
        = Inr ((if status = StatusOK then Fields [(''value'', v)] else Text v, status), ds')"
    by (simp add: HandleCommand_def index_def)
next
  assume a: "ParseCommand pf raw = Inr (''QPOP'', [key]) \<and> QPop ds key = ((v, status), ds')"
  then show "HandleCommand pf ds now raw
        = Inr ((if status = StatusOK then Fields [(''value'', v)] else Fields [(''error'', v)],
                status), ds')"
    by (simp add: HandleCommand_def index_def)
  assume "status \<noteq> StatusOK"
  with a show "status = StatusBadRequest"
    by (auto simp: QPop_def split: option.splits if_splits)
qed

text \<open>
  The theorem at four commands: GET on a missing key and on a stored one, QPOP on a
  missing key and on a queue of one element.
\<close>

theorem HandleCommand_wraps_GET_and_QPOP_witness:
  "HandleCommand ascii_platform NewDatastore 5 ''get k''
     = Inr ((Text ''Key not exist'', StatusNotFound), NewDatastore) \<and>
   HandleCommand ascii_platform
     \<lparr>data = [''k'' \<mapsto> \<lparr>value_str = ''v'', expiry = 0, isQueued = False, queue = []\<rparr>]\<rparr>
     5 ''get k''
     = Inr ((Fields [(''value'', ''v'')], StatusOK),
            \<lparr>data = [''k'' \<mapsto> \<lparr>value_str = ''v'', expiry = 0, isQueued = False, queue = []\<rparr>]\<rparr>) \<and>
   HandleCommand ascii_platform NewDatastore 5 ''QPOP q''
     = Inr ((Fields [(''error'', ''Q is empty so nothing can be popped!!'')], StatusBadRequest),
            NewDatastore) \<and>
   HandleCommand ascii_platform
     \<lparr>data = [''q'' \<mapsto> \<lparr>value_str = '''', expiry = 0, isQueued = True, queue = [''a'']\<rparr>]\<rparr>
     5 ''QPOP q''
     = Inr ((Fields [(''value'', ''a'')], StatusOK),
            \<lparr>data = [''q'' \<mapsto> \<lparr>value_str = '''', expiry = 0, isQueued = True, queue = []\<rparr>]\<rparr>)"
proof -
  let ?k = "\<lparr>data = [''k'' \<mapsto> \<lparr>value_str = ''v'', expiry = 0, isQueued = False, queue = []\<rparr>]\<rparr>"
  let ?q = "\<lparr>data = [''q'' \<mapsto> \<lparr>value_str = '''', expiry = 0, isQueued = True, queue = [''a'']\<rparr>]\<rparr>"
  let ?q' = "\<lparr>data = [''q'' \<mapsto> \<lparr>value_str = '''', expiry = 0, isQueued = True, queue = []\<rparr>]\<rparr>"
  have g1: "Get NewDatastore 5 ''k'' = ((''Key not exist'', StatusNotFound), NewDatastore)"
    by (simp add: Get_def NewDatastore_def)
  have g2: "Get ?k 5 ''k'' = ((''v'', StatusOK), ?k)"
    by (simp add: Get_def IsZero_def)
  have p1: "QPop NewDatastore ''q''
      = ((''Q is empty so nothing can be popped!!'', StatusBadRequest), NewDatastore)"
    by (simp add: QPop_def NewDatastore_def)
  have p2: "QPop ?q ''q'' = ((''a'', StatusOK), ?q')"
    by (simp add: QPop_def)
  from HandleCommand_wraps_GET_and_QPOP [where pf = ascii_platform and raw = "''get k''"
      and key = "''k''" and ds = NewDatastore and now = 5 and v = "''Key not exist''"
      and status = StatusNotFound and ds' = NewDatastore] g1
  have c1: "HandleCommand ascii_platform NewDatastore 5 ''get k''
      = Inr ((Text ''Key not exist'', StatusNotFound), NewDatastore)"
    by (simp add: parse_examples)
  from HandleCommand_wraps_GET_and_QPOP [where pf = ascii_platform and raw = "''get k''"
      and key = "''k''" and ds = ?k and now = 5 and v = "''v''" and status = StatusOK
      and ds' = ?k] g2
  have c2: "HandleCommand ascii_platform ?k 5 ''get k''
      = Inr ((Fields [(''value'', ''v'')], StatusOK), ?k)"
    by (simp add: parse_examples)
  from HandleCommand_wraps_GET_and_QPOP [where pf = ascii_platform and raw = "''QPOP q''"
      and key = "''q''" and ds = NewDatastore and now = 5
      and v = "''Q is empty so nothing can be popped!!''" and status = StatusBadRequest
      and ds' = NewDatastore] p1
  have c3: "HandleCommand ascii_platform NewDatastore 5 ''QPOP q''
      = Inr ((Fields [(''error'', ''Q is empty so nothing can be popped!!'')], StatusBadRequest),
             NewDatastore)"
    by (simp add: parse_examples)
  from HandleCommand_wraps_GET_and_QPOP [where pf = ascii_platform and raw = "''QPOP q''"
      and key = "''q''" and ds = ?q and now = 5 and v = "''a''" and status = StatusOK
      and ds' = ?q'] p2
  have c4: "HandleCommand ascii_platform ?q 5 ''QPOP q''
      = Inr ((Fields [(''value'', ''a'')], StatusOK), ?q')"
    by (simp add: parse_examples)
  from c1 c2 c3 c4 show ?thesis by blast
qed

subsection \<open>Where the dispatcher panics\<close>

text \<open>
  The validators index \<^verbatim>\<open>args\<close> only behind a test of its length, so they return for
  every list; these are their results.
\<close>

lemma ValidateSetInput_eq:
  "ValidateSetInput args
     = Inr (2 \<le> length args \<and> length args \<le> 5 \<and>
            (4 \<le> length args \<longrightarrow> HasPrefix (args ! 2) ''EX'' \<and> 2 < length (args ! 2)) \<and>
            (length args = 5 \<longrightarrow> args ! 4 = ''NX'' \<or> args ! 4 = ''XX''))"
  by (auto simp: ValidateSetInput_def index_def)

lemma ValidateBQPopInput_eq:
  "ValidateBQPopInput pf args = Inr (length args = 2 \<and> snd (ParseFloat pf (args ! 1)))"
  by (auto simp: ValidateBQPopInput_def index_def)

lemma SET_panic_iff:
  assumes "ParseCommand pf raw = Inr (''SET'', args)"
  shows "HandleCommand pf ds now raw = Inl p \<longleftrightarrow>
    p = SliceBoundsOutOfRange \<and> length args = 3 \<and> length (args ! 2) < 2"
proof (cases "ValidateSetInput args = Inr True")
  case False
  then have invalid: "ValidateSetInput args = Inr False"
    by (simp add: ValidateSetInput_eq)
  then have "length args = 3 \<Longrightarrow> False"
    by (simp add: ValidateSetInput_eq)
  with assms invalid show ?thesis
    by (auto simp: HandleCommand_def)
next
  case True
  then have len: "2 \<le> length args" "length args \<le> 5"
    and long: "4 \<le> length args \<Longrightarrow> 2 < length (args ! 2)"
    by (simp_all add: ValidateSetInput_eq)
  show ?thesis
  proof (cases "3 \<le> length args")
    case False
    with len have "length args = 2" by simp
    then show ?thesis
      using assms True
      by (simp add: HandleCommand_def index_def split: prod.splits)
  next
    case three: True
    show ?thesis
    proof (cases "length (args ! 2) < 2")
      case short: True
      with long have "length args = 3" using three by force
      with short show ?thesis
        using assms True
        by (auto simp add: HandleCommand_def index_def slice_from_def)
    next
      case False
      with three len show ?thesis
        using assms True
        by (auto simp add: HandleCommand_def index_def slice_from_def split: prod.splits)
    qed
  qed
qed

lemma GET_returns:
  assumes "ParseCommand pf raw = Inr (''GET'', args)"
  shows "HandleCommand pf ds now raw \<noteq> Inl p"
  using assms
  by (cases "length args = 1")
     (auto simp add: HandleCommand_def index_def split: prod.splits)

lemma QPUSH_returns:
  assumes "ParseCommand pf raw = Inr (''QPUSH'', args)"
  shows "HandleCommand pf ds now raw \<noteq> Inl p"
  using assms
  by (cases "length args < 2")
     (auto simp add: HandleCommand_def index_def slice_from_def split: prod.splits)

lemma QPOP_returns:
  assumes "ParseCommand pf raw = Inr (''QPOP'', args)"
  shows "HandleCommand pf ds now raw \<noteq> Inl p"
  using assms
  by (cases "length args = 1")
     (auto simp add: HandleCommand_def index_def split: prod.splits)

lemma BQPOP_returns:
  assumes "ParseCommand pf raw = Inr (''BQPOP'', args)"
  shows "HandleCommand pf ds now raw \<noteq> Inl p"
  using assms
  by (cases "length args = 2 \<and> snd (ParseFloat pf (args ! 1))")
     (auto simp add: HandleCommand_def ValidateBQPopInput_eq index_def split: prod.splits)

lemma other_verb_returns:
  assumes "ParseCommand pf raw = Inr (command, args)"
    and "command \<noteq> ''SET''" "command \<noteq> ''GET''" "command \<noteq> ''QPUSH''"
    and "command \<noteq> ''QPOP''" "command \<noteq> ''BQPOP''"
  shows "HandleCommand pf ds now raw = Inr ((Text ''Invalid Command'', StatusBadRequest), ds)"
  using assms by (simp add: HandleCommand_def)

text \<open>
  Claim C1 says that \<^verbatim>\<open>HandleCommand\<close> returns a payload and a status for every string.
  \<^verbatim>\<open>ValidateSetInput\<close> looks at the third argument only when there are four arguments
  or more, and the SET branch evaluates \<^verbatim>\<open>args[2][2:]\<close> whenever there are three or more.
  So the dispatcher panics, with a slice bound out of range, exactly on the SET commands
  with three arguments whose third argument has fewer than two characters; on every
  other string it returns. The panic comes before the call of \<^verbatim>\<open>Set\<close>, so the store
  is not touched.
\<close>

theorem HandleCommand_panics_iff:
  "HandleCommand pf ds now raw = Inl p \<longleftrightarrow>
     p = SliceBoundsOutOfRange \<and>
     (\<exists>key v e. ParseCommand pf raw = Inr (''SET'', [key, v, e]) \<and> length e < 2)"
proof -
  obtain command args where parse: "ParseCommand pf raw = Inr (command, args)"
    using ParseCommand_returns by blast
  have three: "length args = 3 \<longleftrightarrow> (\<exists>key v e. args = [key, v, e])"
    by (auto simp: length_Suc_conv numeral_3_eq_3)
  consider "command = ''SET''" | "command = ''GET''" | "command = ''QPUSH''"
    | "command = ''QPOP''" | "command = ''BQPOP''"
    | "command \<noteq> ''SET''" "command \<noteq> ''GET''" "command \<noteq> ''QPUSH''"
      "command \<noteq> ''QPOP''" "command \<noteq> ''BQPOP''"
    by blast
  then show ?thesis
  proof cases
    case 1
    with parse SET_panic_iff [of pf raw args ds now p] three show ?thesis by auto
  next
    case 2
    with parse GET_returns [of pf raw args ds now p] show ?thesis by simp
  next
    case 3
    with parse QPUSH_returns [of pf raw args ds now p] show ?thesis by simp
  next
    case 4
    with parse QPOP_returns [of pf raw args ds now p] show ?thesis by simp
  next
    case 5
    with parse BQPOP_returns [of pf raw args ds now p] show ?thesis by simp
  next
    case 6
    with parse other_verb_returns [of pf raw command args ds now] show ?thesis by simp
  qed
qed

text \<open>
  The theorem at the command \<^verbatim>\<open>SET k v E\<close>: the validator accepts the three arguments and
  the dispatcher panics.
\<close>

theorem HandleCommand_panics_iff_witness:
  "ValidateSetInput [''k'', ''v'', ''E''] = Inr True \<and>
   HandleCommand ascii_platform NewDatastore 5 ''SET k v E'' = Inl SliceBoundsOutOfRange"
proof -
  have v: "ValidateSetInput [''k'', ''v'', ''E''] = Inr True"
    by (simp add: ValidateSetInput_def)
  have "\<exists>key v e. ParseCommand ascii_platform ''SET k v E'' = Inr (''SET'', [key, v, e]) \<and>
      length e < 2"
    by (simp add: parse_examples)
  with HandleCommand_panics_iff [where pf = ascii_platform and ds = NewDatastore and now = 5
      and raw = "''SET k v E''" and p = SliceBoundsOutOfRange]
  have "HandleCommand ascii_platform NewDatastore 5 ''SET k v E'' = Inl SliceBoundsOutOfRange"
    by blast
  with v show ?thesis by blast
qed

section \<open>The deadline of the blocking pop\<close>

text \<open>
  While there is nothing to pop, one round of the loop either returns NotFound or sleeps
  and starts again.
\<close>

lemma BQPop_loop_nothing_to_pop:
  assumes "case data ds key of None \<Rightarrow> True | Some d \<Rightarrow> \<not> isQueued d \<or> length (queue d) = 0"
  shows "BQPop_loop pf ds key expiry_at now =
    (if After (now + int (poll_cost pf)) expiry_at
     then ((('''', StatusNotFound), ds), now + int (poll_cost pf))
     else BQPop_loop pf ds key expiry_at (now + int (poll_cost pf) + 100 * Millisecond))"
  using assms
  by (subst BQPop_loop.simps) (auto simp: Let_def split: option.splits)

lemma wrap64_id:
  assumes "- (2 ^ 63) \<le> x" and "x < 2 ^ 63"
  shows "wrap64 x = x"
  using assms by (simp add: wrap64_def)

lemma BQPop_timeout_whole_seconds:
  assumes "0 \<le> r" and "r < 9223372036"
  shows "BQPop_timeout pf (Finite r) = Second * \<lfloor>r\<rfloor>"
proof -
  define k where "k = \<lfloor>r\<rfloor>"
  from assms have lo: "0 \<le> k" by (simp add: k_def)
  from assms have "k < 9223372036" by (simp add: k_def floor_less_iff)
  then have hi: "k \<le> 9223372035" by simp
  from lo hi have "- (2 ^ 63) \<le> k \<and> k < 2 ^ 63" by simp
  with assms have d: "Duration_of_float64 pf (Finite r) = k"
    by (simp add: Duration_of_float64_def truncate_rat_def k_def)
  have "wrap64 (Second * k) = Second * k"
  proof (rule wrap64_id)
    from lo show "- (2 ^ 63) \<le> Second * k" by simp
    from hi show "Second * k < 2 ^ 63" by simp
  qed
  with d show ?thesis by (simp add: BQPop_timeout_def k_def)
qed

text \<open>
  Claim C2 says that the deadline of \<^verbatim>\<open>BQPop\<close> is \<open>now\<close> plus \<open>timeoutSeconds\<close> seconds,
  fractions included. The code converts \<open>timeoutSeconds\<close> to a \<^verbatim>\<open>time.Duration\<close>, an
  integer, before it multiplies by \<^verbatim>\<open>time.Second\<close>, so the fraction is lost: for
  \<open>0 \<le> r\<close> the deadline is \<open>now\<close> plus \<open>\<lfloor>r\<rfloor>\<close> seconds. For \<open>r < 1\<close> the deadline is
  \<open>now\<close>, and with nothing to pop \<^verbatim>\<open>BQPop\<close> returns NotFound at the first reading of the
  clock that is after \<open>now\<close>: after one poll, or after one sleep of 100 milliseconds
  when the poll took no time.
\<close>

theorem BQPop_drops_fraction_of_timeout:
  "(0 \<le> r \<and> r < 9223372036 \<longrightarrow>
      BQPop_expiry pf now (Finite r) = now + Second * \<lfloor>r\<rfloor>) \<and>
   (0 \<le> r \<and> r < 1 \<and>
    (case data ds key of None \<Rightarrow> True | Some d \<Rightarrow> \<not> isQueued d \<or> length (queue d) = 0) \<longrightarrow>
      BQPop_expiry pf now (Finite r) = now \<and>
      BQPop pf ds now key (Finite r)
        = ((('''', StatusNotFound), ds),
           (if poll_cost pf = 0 then now + 100 * Millisecond else now + int (poll_cost pf))))"
proof (intro conjI impI)
  assume "0 \<le> r \<and> r < 9223372036"
  then show "BQPop_expiry pf now (Finite r) = now + Second * \<lfloor>r\<rfloor>"
    by (simp add: BQPop_expiry_def Add_def BQPop_timeout_whole_seconds)
next
  assume a: "0 \<le> r \<and> r < 1 \<and>
   (case data ds key of None \<Rightarrow> True | Some d \<Rightarrow> \<not> isQueued d \<or> length (queue d) = 0)"
  then have "\<lfloor>r\<rfloor> = 0" by (simp add: floor_eq_iff)
  with a show e: "BQPop_expiry pf now (Finite r) = now"
    by (simp add: BQPop_expiry_def Add_def BQPop_timeout_whole_seconds)
  from a have empty:
    "case data ds key of None \<Rightarrow> True | Some d \<Rightarrow> \<not> isQueued d \<or> length (queue d) = 0"
    by simp
  have "BQPop_loop pf ds key now now
       = ((('''', StatusNotFound), ds),
          (if poll_cost pf = 0 then now + 100 * Millisecond else now + int (poll_cost pf)))"
    by (cases "poll_cost pf = 0")
       (simp_all add: BQPop_loop_nothing_to_pop [OF empty] After_def)
  with e show "BQPop pf ds now key (Finite r)
       = ((('''', StatusNotFound), ds),
          (if poll_cost pf = 0 then now + 100 * Millisecond else now + int (poll_cost pf)))"
    by (simp add: BQPop_def)
qed

text \<open>
  The theorem at a timeout of 2.5 seconds, and at the \<^verbatim>\<open>float64\<close> nearest to 0.2, which
  is 3602879701896397 / 2^54: on the new store \<^verbatim>\<open>BQPop\<close> returns NotFound 100
  milliseconds after the call, not 200.
\<close>

theorem BQPop_drops_fraction_of_timeout_witness:
  "BQPop_expiry ascii_platform 1000 (Finite (5 / 2)) = 2000001000 \<and>
   BQPop_expiry ascii_platform 1000 (Finite (3602879701896397 / 18014398509481984)) = 1000 \<and>
   BQPop ascii_platform NewDatastore 1000 ''q'' (Finite (3602879701896397 / 18014398509481984))
     = ((('''', StatusNotFound), NewDatastore), 100001000)"
proof -
  let ?r = "3602879701896397 / 18014398509481984 :: rat"
  have h: "0 \<le> ?r \<and> ?r < 1 \<and>
    (case data NewDatastore ''q'' of None \<Rightarrow> True
     | Some d \<Rightarrow> \<not> isQueued d \<or> length (queue d) = 0)"
    by (simp add: NewDatastore_def)
  have h': "(0::rat) \<le> 5 / 2 \<and> (5 / 2 :: rat) < 9223372036" by simp
  have p: "poll_cost ascii_platform = 0" by (simp add: ascii_platform_def)
  have f: "\<lfloor>5 / 2 :: rat\<rfloor> = 2" by (simp add: floor_eq_iff)
  from BQPop_drops_fraction_of_timeout [where r = "5 / 2" and pf = ascii_platform and now = 1000] h'
  have c1: "BQPop_expiry ascii_platform 1000 (Finite (5 / 2)) = 2000001000"
    by (simp add: f)
  from BQPop_drops_fraction_of_timeout [where r = ?r and ds = NewDatastore and key = "''q''"
      and pf = ascii_platform and now = 1000] h
  have c2: "BQPop_expiry ascii_platform 1000 (Finite ?r) = 1000 \<and>
   BQPop ascii_platform NewDatastore 1000 ''q'' (Finite ?r)
     = ((('''', StatusNotFound), NewDatastore), 100001000)" by (simp add: p)
  from c1 c2 show ?thesis by blast
qed

end
